theory Spec2Isabelle
  imports Main "HOL-Library.Char_ord" "HOL-Library.List_Lexorder" "HOL-Library.Word"
begin

section \<open>Idempotent operation lifecycle: data model\<close>

text \<open>
  The development follows the repositories and services of the application. A database
  session is a record of tables; every repository function takes the session and returns
  its result together with the updated session. A raised exception is the left summand of
  the result. Each SQL statement is modelled by its effect on the rows it selects; the
  unique indexes and check constraints declared on the ORM models are checked by the
  statements that can violate them and surface as \<open>IntegrityError\<close>. A service
  function is modelled on the session it is handed: its result, and the tables as the
  session sees them when it returns or raises. The transaction that encloses a request
  is modelled by \<open>get_db\<close> below.
\<close>

datatype RowStatus = pending | applied | failed

datatype error =
    NotEnoughTokensException
  | BalanceMustBeZeroException
  | PurchaseInProgressException
  | IntegrityError
  | MultipleResultsFound
  | NoResultFound
  | InvalidTokenException
  | ReusedTokenException
  | ExpiredTokenException
  | TokenGenerationException
  | TrainModelInProgressException
  | TrainingFailedException
  | ArtifactWriteException
  | CancelledError
  | PredictionInProgressException
  | PredictionFailedException
  | ModelNotFoundException
  | ArtifactMissingException
  | FeatureMismatchException

datatype ActionType = TRAINING | METADATA | PREDICTION | ASSIST

fun cost :: "ActionType \<Rightarrow> int" where
  "cost TRAINING = 10"
| "cost METADATA = 1"
| "cost PREDICTION = 5"
| "cost ASSIST = 2"

record User =
  tokens :: int
  is_active :: bool

record TokenCredit =
  tc_user_id :: int
  tc_key :: string
  tc_open_balance :: "int option"
  tc_status :: RowStatus

text \<open>
  JSON values as Python holds them: a dict is an association list in insertion order
  (its keys are distinct), a float is its 64-bit pattern.
\<close>

datatype json = JNull | JBool bool | JInt int | JFloat "64 word" | JStr string
  | JList "json list" | JDict "(string \<times> json) list"

record TrainedModel =
  tm_id :: int
  tm_user_id :: int
  tm_model_type :: string
  tm_features :: "string list"
  tm_metrics :: "string option"
  tm_fingerprint :: string
  tm_model_path :: string
  tm_status :: RowStatus

record Prediction =
  p_id :: int
  p_user_id :: int
  p_model_id :: int
  p_model_type :: string
  p_input_data :: "(string \<times> json) list"
  prediction_result :: string
  p_fingerprint :: string
  p_status :: RowStatus

text \<open>Timestamps are seconds on the UTC time line.\<close>

record AuthSession =
  as_user_id :: int
  session_id :: string
  refresh_token_hash :: string
  last_token_hash :: "string option"
  revoked :: bool
  expires_at :: int
  absolute_expires_at :: int

record db =
  users :: "int \<rightharpoonup> User"
  token_credits :: "TokenCredit list"
  trained_models :: "TrainedModel list"
  predictions :: "Prediction list"
  auth_sessions :: "AuthSession list"

text \<open>
  The library primitives the code calls and the repository does not define: the SHA-256
  hex digest of a byte string, the JSON encoder of a string literal and the \<open>repr\<close> of
  a float. They are parameters of every function that uses them.
\<close>

record stdlib =
  sha256_hexdigest :: "string \<Rightarrow> string"
  encode_basestring_ascii :: "string \<Rightarrow> string"
  float_repr :: "64 word \<Rightarrow> string"

text \<open>
  \<open>get_db\<close>: every request runs its handler inside \<open>async with session.begin()\<close>.
  The transaction is committed when the handler returns and rolled back when it raises,
  so after an exception the tables are those the request started from.
\<close>

definition get_db :: "(db \<Rightarrow> (error + 'a) \<times> db) \<Rightarrow> db \<Rightarrow> (error + 'a) \<times> db" where
  "get_db handler d =
     (case handler d of
        (Inl e, d') \<Rightarrow> (Inl e, d)
      | (Inr x, d') \<Rightarrow> (Inr x, d'))"

section \<open>Token ledger\<close>

text \<open>The check constraint \<open>ck_users_tokens_0_1000\<close> of the users table.\<close>

definition ck_users_tokens_0_1000 :: "int \<Rightarrow> bool" where
  "ck_users_tokens_0_1000 t \<longleftrightarrow> 0 \<le> t \<and> t \<le> 1000"

text \<open>
  \<open>UserRepository.update_tokens\<close>: one conditional UPDATE guarded by
  \<open>tokens >= cost\<close>; no returned row raises \<open>NotEnoughTokensException\<close>.
\<close>

definition update_tokens :: "db \<Rightarrow> int \<Rightarrow> int \<Rightarrow> (error + int) \<times> db" where
  "update_tokens d user_id c =
     (case users d user_id of
        None \<Rightarrow> (Inl NotEnoughTokensException, d)
      | Some u \<Rightarrow>
          if tokens u \<ge> c then
            (if ck_users_tokens_0_1000 (tokens u - c)
             then (Inr (tokens u - c),
                   d\<lparr>users := (users d)(user_id \<mapsto> u\<lparr>tokens := tokens u - c\<rparr>)\<rparr>)
             else (Inl IntegrityError, d))
          else (Inl NotEnoughTokensException, d))"

text \<open>
  \<open>UserRepository.add_tokens\<close>: one conditional UPDATE guarded by
  \<open>tokens == 0\<close> and \<open>is_active\<close>; returns the new balance, or None when no row matched.
\<close>

definition add_tokens :: "db \<Rightarrow> int \<Rightarrow> int \<Rightarrow> (error + int option) \<times> db" where
  "add_tokens d user_id amount =
     (case users d user_id of
        None \<Rightarrow> (Inr None, d)
      | Some u \<Rightarrow>
          if tokens u = 0 \<and> is_active u then
            (if ck_users_tokens_0_1000 (tokens u + amount)
             then (Inr (Some (tokens u + amount)),
                   d\<lparr>users := (users d)(user_id \<mapsto> u\<lparr>tokens := tokens u + amount\<rparr>)\<rparr>)
             else (Inl IntegrityError, d))
          else (Inr None, d))"

text \<open>\<open>UserRepository.get_tokens_by_id\<close>: \<open>scalar_one\<close> raises when there is no row.\<close>

definition get_tokens_by_id :: "db \<Rightarrow> int \<Rightarrow> error + int" where
  "get_tokens_by_id d user_id =
     (case users d user_id of None \<Rightarrow> Inl NoResultFound | Some u \<Rightarrow> Inr (tokens u))"

subsection \<open>Purchase ledger\<close>

text \<open>
  The check constraint \<open>ck_token_credits_open_balance_when_applied\<close> and the two unique
  indexes of the token_credits table.
\<close>

definition ck_token_credits_open_balance_when_applied :: "TokenCredit \<Rightarrow> bool" where
  "ck_token_credits_open_balance_when_applied r \<longleftrightarrow>
     (tc_status r \<noteq> applied \<and> tc_open_balance r = None) \<or>
     (tc_status r = applied \<and>
        (case tc_open_balance r of None \<Rightarrow> False | Some b \<Rightarrow> 1 \<le> b \<and> b \<le> 100))"

definition tc_matches :: "int \<Rightarrow> string \<Rightarrow> TokenCredit \<Rightarrow> bool" where
  "tc_matches user_id key r \<longleftrightarrow> tc_user_id r = user_id \<and> tc_key r = key"

definition tc_has_key :: "db \<Rightarrow> int \<Rightarrow> string \<Rightarrow> bool" where
  "tc_has_key d user_id key \<longleftrightarrow> list_ex (tc_matches user_id key) (token_credits d)"

definition tc_has_pending :: "db \<Rightarrow> int \<Rightarrow> bool" where
  "tc_has_pending d user_id \<longleftrightarrow>
     list_ex (\<lambda>r. tc_user_id r = user_id \<and> tc_status r = pending) (token_credits d)"

text \<open>
  \<open>TokenCreditRepository.try_insert_pending\<close>: INSERT .. ON CONFLICT (user_id, key) DO
  NOTHING. A conflict on the arbiter index inserts nothing and reports False; a second
  pending row of the same user violates \<open>ux_token_credits_one_pending_per_user\<close>.
\<close>

definition tc_try_insert_pending :: "db \<Rightarrow> int \<Rightarrow> string \<Rightarrow> (error + bool) \<times> db" where
  "tc_try_insert_pending d user_id key =
     (if tc_has_key d user_id key then (Inr False, d)
      else if tc_has_pending d user_id then (Inl IntegrityError, d)
      else (Inr True,
            d\<lparr>token_credits := token_credits d @
                 [\<lparr>tc_user_id = user_id, tc_key = key,
                   tc_open_balance = None, tc_status = pending\<rparr>]\<rparr>))"

text \<open>\<open>get_by_key_status_open_balance\<close>: the first matching row, or None.\<close>

definition get_by_key_status_open_balance ::
    "db \<Rightarrow> int \<Rightarrow> string \<Rightarrow> (RowStatus \<times> int option) option" where
  "get_by_key_status_open_balance d user_id key =
     (case filter (tc_matches user_id key) (token_credits d) of
        [] \<Rightarrow> None
      | r # _ \<Rightarrow> Some (tc_status r, tc_open_balance r))"

text \<open>An UPDATE of token_credits: every matching row is rewritten, under the check constraint.\<close>

definition tc_update ::
    "db \<Rightarrow> int \<Rightarrow> string \<Rightarrow> (TokenCredit \<Rightarrow> TokenCredit) \<Rightarrow> (error + unit) \<times> db" where
  "tc_update d user_id key f =
     (let rows = map (\<lambda>r. if tc_matches user_id key r then f r else r) (token_credits d)
      in if list_all (\<lambda>r. tc_matches user_id key r \<longrightarrow>
                        ck_token_credits_open_balance_when_applied (f r)) (token_credits d)
         then (Inr (), d\<lparr>token_credits := rows\<rparr>)
         else (Inl IntegrityError, d))"

definition tc_mark_applied :: "db \<Rightarrow> int \<Rightarrow> string \<Rightarrow> int \<Rightarrow> (error + unit) \<times> db" where
  "tc_mark_applied d user_id key open_balance =
     tc_update d user_id key
       (\<lambda>r. r\<lparr>tc_status := applied, tc_open_balance := Some open_balance\<rparr>)"

definition tc_mark_failed :: "db \<Rightarrow> int \<Rightarrow> string \<Rightarrow> (error + unit) \<times> db" where
  "tc_mark_failed d user_id key =
     tc_update d user_id key (\<lambda>r. r\<lparr>tc_status := failed\<rparr>)"

text \<open>
  \<open>TokenCreditService.buy_tokens\<close>. The response carries the resulting balance; an
  exception of a repository call propagates.
\<close>

definition buy_tokens :: "db \<Rightarrow> int \<Rightarrow> int \<Rightarrow> string \<Rightarrow> (error + int) \<times> db" where
  "buy_tokens d user_id amount key =
     (case tc_try_insert_pending d user_id key of
        (Inl e, d1) \<Rightarrow> (Inl e, d1)
      | (Inr True, d1) \<Rightarrow>
          (case add_tokens d1 user_id amount of
             (Inl e, d2) \<Rightarrow> (Inl e, d2)
           | (Inr None, d2) \<Rightarrow>
               (case tc_mark_failed d2 user_id key of
                  (Inl e, d3) \<Rightarrow> (Inl e, d3)
                | (Inr _, d3) \<Rightarrow> (Inl BalanceMustBeZeroException, d3))
           | (Inr (Some new_balance), d2) \<Rightarrow>
               (case tc_mark_applied d2 user_id key new_balance of
                  (Inl e, d3) \<Rightarrow> (Inl e, d3)
                | (Inr _, d3) \<Rightarrow> (Inr new_balance, d3)))
      | (Inr False, d1) \<Rightarrow>
          (case get_by_key_status_open_balance d1 user_id key of
             Some (applied, Some open_balance) \<Rightarrow> (Inr open_balance, d1)
           | Some (applied, None) \<Rightarrow> (Inl PurchaseInProgressException, d1)
           | Some (failed, _) \<Rightarrow> (Inl BalanceMustBeZeroException, d1)
           | _ \<Rightarrow> (Inl PurchaseInProgressException, d1)))"

section \<open>Session rotation chain\<close>

definition hash_token :: "stdlib \<Rightarrow> string \<Rightarrow> string" where
  "hash_token P token = sha256_hexdigest P token"

definition MAX_TOKEN_GENERATION_RETRIES :: nat where
  "MAX_TOKEN_GENERATION_RETRIES = 3"

text \<open>
  \<open>AuthRepository.get_refresh_token\<close>: the first session whose current refresh-token
  hash is the given one.
\<close>

definition get_refresh_token :: "db \<Rightarrow> string \<Rightarrow> AuthSession option" where
  "get_refresh_token d token_hash =
     (case filter (\<lambda>s. refresh_token_hash s = token_hash) (auth_sessions d) of
        [] \<Rightarrow> None
      | s # _ \<Rightarrow> Some s)"

text \<open>
  \<open>AuthRepository.rotate_refresh_token\<close>: an UPDATE by session id; the statement fails
  when it would break \<open>uq_refresh_token_hash\<close>.
\<close>

definition ar_rotate_refresh_token ::
    "db \<Rightarrow> string \<Rightarrow> string \<Rightarrow> string \<Rightarrow> int \<Rightarrow> (error + unit) \<times> db" where
  "ar_rotate_refresh_token d sid new_token_hash last_hash new_expiry =
     (let rows = map (\<lambda>s. if session_id s = sid
                           then s\<lparr>refresh_token_hash := new_token_hash,
                                  last_token_hash := Some last_hash,
                                  expires_at := new_expiry\<rparr>
                           else s) (auth_sessions d)
      in if distinct (map refresh_token_hash rows)
         then (Inr (), d\<lparr>auth_sessions := rows\<rparr>)
         else (Inl IntegrityError, d))"

definition revoke_by_session :: "db \<Rightarrow> string \<Rightarrow> db" where
  "revoke_by_session d sid =
     d\<lparr>auth_sessions :=
          map (\<lambda>s. if session_id s = sid then s\<lparr>revoked := True\<rparr> else s) (auth_sessions d)\<rparr>"

text \<open>
  \<open>_try_generate_unique_refresh_token_with_retries\<close> as rotation calls it
  (\<open>rotate=True\<close>). The argument \<open>gen\<close> gives, for the i-th attempt, the value of
  \<open>generate_id()\<close> and the clock reading; the new soft expiry is one hour later. The
  first argument counts the attempts left.
\<close>

fun try_generate_unique_refresh_token_with_retries ::
    "nat \<Rightarrow> stdlib \<Rightarrow> (nat \<Rightarrow> string \<times> int) \<Rightarrow> string \<Rightarrow> string \<Rightarrow> nat \<Rightarrow> db
       \<Rightarrow> (error + string) \<times> db" where
  "try_generate_unique_refresh_token_with_retries 0 P gen sid last_hash i d =
     (Inl TokenGenerationException, d)"
| "try_generate_unique_refresh_token_with_retries (Suc n) P gen sid last_hash i d =
     (case gen i of
        (raw_refresh, now) \<Rightarrow>
          (case ar_rotate_refresh_token d sid (hash_token P raw_refresh) last_hash (now + 3600) of
             (Inr _, d') \<Rightarrow> (Inr raw_refresh, d')
           | (Inl e, d') \<Rightarrow>
               if e = IntegrityError
               then try_generate_unique_refresh_token_with_retries n P gen sid last_hash (Suc i) d'
               else (Inl e, d')))"

text \<open>
  \<open>AuthService.rotate_refresh_token\<close>. \<open>now1\<close> and \<open>now2\<close> are the two clock readings
  of the expiry checks. The response is represented by the new refresh token; the access
  token is a signed encoding of the user and does not touch the session table.
\<close>

definition rotate_refresh_token ::
    "stdlib \<Rightarrow> int \<Rightarrow> int \<Rightarrow> (nat \<Rightarrow> string \<times> int) \<Rightarrow> db \<Rightarrow> string \<Rightarrow> (error + string) \<times> db" where
  "rotate_refresh_token P now1 now2 gen d refresh_token =
     (let last_refresh_token = hash_token P refresh_token in
      case get_refresh_token d last_refresh_token of
        None \<Rightarrow> (Inl InvalidTokenException, d)
      | Some row \<Rightarrow>
          (case users d (as_user_id row) of
             None \<Rightarrow> (Inl InvalidTokenException, d)
           | Some row_user \<Rightarrow>
               if \<not> is_active row_user then (Inl InvalidTokenException, d)
               else if revoked row then (Inl ReusedTokenException, d)
               else if expires_at row < now1 then (Inl ExpiredTokenException, d)
               else if absolute_expires_at row < now2
                 then (Inl ExpiredTokenException, revoke_by_session d (session_id row))
               else if last_token_hash row = Some last_refresh_token
                 then (Inl ReusedTokenException, revoke_by_session d (session_id row))
               else try_generate_unique_refresh_token_with_retries
                      MAX_TOKEN_GENERATION_RETRIES P gen (session_id row) last_refresh_token 0 d))"

section \<open>Fingerprint generator\<close>

fun digits10 :: "nat \<Rightarrow> string" where
  "digits10 n =
     (if n < 10 then [char_of (48 + n)]
      else digits10 (n div 10) @ [char_of (48 + n mod 10)])"

definition int_repr :: "int \<Rightarrow> string" where
  "int_repr i = (if i < 0 then CHR ''-'' # digits10 (nat (- i)) else digits10 (nat i))"

fun join :: "string \<Rightarrow> string list \<Rightarrow> string" where
  "join sep [] = []"
| "join sep [x] = x"
| "join sep (x # y # ys) = x @ sep @ join sep (y # ys)"

text \<open>
  \<open>stable_json\<close>: \<open>json.dumps(obj, sort_keys=True, separators=(",", ":"))\<close>. The items
  of a dict are written in the order of their keys.
\<close>

fun stable_json :: "stdlib \<Rightarrow> json \<Rightarrow> string" where
  "stable_json P JNull = ''null''"
| "stable_json P (JBool b) = (if b then ''true'' else ''false'')"
| "stable_json P (JInt i) = int_repr i"
| "stable_json P (JFloat w) = float_repr P w"
| "stable_json P (JStr s) = encode_basestring_ascii P s"
| "stable_json P (JList xs) = ''['' @ join '','' (map (stable_json P) xs) @ '']''"
| "stable_json P (JDict kvs) =
     ''{'' @ join '',''
               (map (\<lambda>(k, v). encode_basestring_ascii P k @ '':'' @ stable_json P v)
                    (sort_key fst kvs)) @ ''}''"

text \<open>
  \<open>compute_training_fingerprint\<close>. \<open>code_hash\<close> and \<open>lock_hash\<close> are the values of
  \<open>model_code_hash()\<close> and \<open>lockfile_sha()\<close>, which the process reads once;
  \<open>csv_bytes\<close> is the content of the dataset file, hashed by \<open>file_sha256\<close>.
\<close>

definition file_sha256 :: "stdlib \<Rightarrow> string \<Rightarrow> string" where
  "file_sha256 P content = sha256_hexdigest P content"

definition compute_training_fingerprint ::
    "stdlib \<Rightarrow> string \<Rightarrow> string \<Rightarrow> string \<Rightarrow> string list \<Rightarrow> string \<Rightarrow> string
       \<Rightarrow> (string \<times> json) list \<Rightarrow> string" where
  "compute_training_fingerprint P code_hash lock_hash csv_bytes sorted_features_clean
       label_clean model_type_clean params_norm =
     (let pipeline_version = code_hash @ ''|lock='' @ lock_hash;
          parts = JDict
            [(''data_sha256'', JStr (file_sha256 P csv_bytes)),
             (''features'', JList (map JStr sorted_features_clean)),
             (''label'', JStr label_clean),
             (''model_type'', JStr model_type_clean),
             (''params'', JDict params_norm),
             (''pipeline_version'', JStr pipeline_version)]
      in sha256_hexdigest P (stable_json P parts))"

text \<open>
  \<open>compute_prediction_fingerprint\<close>. \<open>sorted(feature_values.items())\<close> orders the
  (key, value) tuples; the keys of a dict are distinct, so the order is that of the keys.
\<close>

definition compute_prediction_fingerprint ::
    "stdlib \<Rightarrow> int \<Rightarrow> (string \<times> json) list \<Rightarrow> string" where
  "compute_prediction_fingerprint P model_id feature_values =
     (let canonical = JDict
            [(''model_id'', JInt model_id),
             (''features'',
                JList (map (\<lambda>(k, v). JList [JStr k, v]) (sort_key fst feature_values)))];
          payload = stable_json P canonical
      in sha256_hexdigest P payload)"

text \<open>
  Identical logical input, for a JSON value: equal scalars, lists equal position by
  position, dicts with the same keys and equal values under each key, whatever the order
  in which the keys were inserted.
\<close>

inductive same_json :: "json \<Rightarrow> json \<Rightarrow> bool" where
  same_scalar: "\<lbrakk>\<And>xs. a \<noteq> JList xs; \<And>kvs. a \<noteq> JDict kvs\<rbrakk> \<Longrightarrow> same_json a a"
| same_list: "list_all2 same_json xs ys \<Longrightarrow> same_json (JList xs) (JList ys)"
| same_dict:
    "\<lbrakk>distinct (map fst kvs); distinct (map fst kvs'); fst ` set kvs = fst ` set kvs';
      \<And>k v v'. (k, v) \<in> set kvs \<Longrightarrow> (k, v') \<in> set kvs' \<Longrightarrow> same_json v v'\<rbrakk>
     \<Longrightarrow> same_json (JDict kvs) (JDict kvs')"

section \<open>Operation ledger\<close>

definition scalar_one_or_none :: "'a list \<Rightarrow> error + 'a option" where
  "scalar_one_or_none xs =
     (case xs of [] \<Rightarrow> Inr None | [x] \<Rightarrow> Inr (Some x) | _ \<Rightarrow> Inl MultipleResultsFound)"

definition next_id :: "int list \<Rightarrow> int" where
  "next_id ids = fold max ids 0 + 1"

subsection \<open>TrainModelRepository\<close>

definition tm_hit :: "int \<Rightarrow> string \<Rightarrow> TrainedModel \<Rightarrow> bool" where
  "tm_hit user_id fingerprint r \<longleftrightarrow> tm_user_id r = user_id \<and> tm_fingerprint r = fingerprint"

definition tm_try_insert_pending ::
    "db \<Rightarrow> int \<Rightarrow> string \<Rightarrow> string list \<Rightarrow> string \<Rightarrow> string \<Rightarrow> (error + int option) \<times> db" where
  "tm_try_insert_pending d user_id model_type features fingerprint model_path =
     (if list_ex (tm_hit user_id fingerprint) (trained_models d)
      then (Inr None, d)
      else (let new_id = next_id (map tm_id (trained_models d))
            in (Inr (Some new_id),
                d\<lparr>trained_models := trained_models d @
                     [\<lparr>tm_id = new_id, tm_user_id = user_id, tm_model_type = model_type,
                       tm_features = features, tm_metrics = Some ''{}'',
                       tm_fingerprint = fingerprint, tm_model_path = model_path,
                       tm_status = pending\<rparr>]\<rparr>)))"

definition tm_get_by_user_fingerprint :: "db \<Rightarrow> int \<Rightarrow> string \<Rightarrow> error + TrainedModel option" where
  "tm_get_by_user_fingerprint d user_id fingerprint =
     scalar_one_or_none (filter (tm_hit user_id fingerprint) (trained_models d))"

text \<open>\<open>restart_existing_row\<close>: failed \<open>\<rightarrow>\<close> pending, with \<open>metrics=None\<close>.\<close>

definition tm_restart_existing_row :: "db \<Rightarrow> int \<Rightarrow> string \<Rightarrow> (error + int option) \<times> db" where
  "tm_restart_existing_row d user_id fingerprint =
     (let hit = (\<lambda>r. tm_hit user_id fingerprint r \<and> tm_status r = failed)
      in (scalar_one_or_none (map tm_id (filter hit (trained_models d))),
          d\<lparr>trained_models :=
               map (\<lambda>r. if hit r then r\<lparr>tm_status := pending, tm_metrics := None\<rparr> else r)
                   (trained_models d)\<rparr>))"

text \<open>\<open>mark_failed\<close>: by id, whatever the status; True when a row was updated.\<close>

definition tm_mark_failed :: "db \<Rightarrow> int \<Rightarrow> bool \<times> db" where
  "tm_mark_failed d trained_model_id =
     (list_ex (\<lambda>r. tm_id r = trained_model_id) (trained_models d),
      d\<lparr>trained_models :=
           map (\<lambda>r. if tm_id r = trained_model_id then r\<lparr>tm_status := failed\<rparr> else r)
               (trained_models d)\<rparr>)"

text \<open>\<open>mark_applied\<close>: pending \<open>\<rightarrow>\<close> applied by id, then the row by primary key.\<close>

definition tm_mark_applied ::
    "db \<Rightarrow> int \<Rightarrow> string \<Rightarrow> (error + TrainedModel option) \<times> db" where
  "tm_mark_applied d trained_model_id metrics =
     (let hit = (\<lambda>r. tm_id r = trained_model_id \<and> tm_status r = pending);
          d' = d\<lparr>trained_models :=
                    map (\<lambda>r. if hit r then r\<lparr>tm_status := applied, tm_metrics := Some metrics\<rparr>
                              else r)
                        (trained_models d)\<rparr>
      in case scalar_one_or_none (map tm_id (filter hit (trained_models d))) of
           Inl e \<Rightarrow> (Inl e, d')
         | Inr None \<Rightarrow> (Inr None, d')
         | Inr (Some updated_id) \<Rightarrow>
             (Inr (find (\<lambda>r. tm_id r = updated_id) (trained_models d')), d'))"

subsection \<open>PredictionRepository\<close>

definition p_hit :: "int \<Rightarrow> string \<Rightarrow> Prediction \<Rightarrow> bool" where
  "p_hit user_id fingerprint r \<longleftrightarrow> p_user_id r = user_id \<and> p_fingerprint r = fingerprint"

definition get_model_for_user_applied :: "db \<Rightarrow> int \<Rightarrow> int \<Rightarrow> error + TrainedModel option" where
  "get_model_for_user_applied d user_id model_id =
     scalar_one_or_none
       (filter (\<lambda>r. tm_id r = model_id \<and> tm_user_id r = user_id \<and> tm_status r = applied)
               (trained_models d))"

definition p_try_insert_pending ::
    "db \<Rightarrow> int \<Rightarrow> int \<Rightarrow> string \<Rightarrow> (string \<times> json) list \<Rightarrow> string
       \<Rightarrow> (error + int option) \<times> db" where
  "p_try_insert_pending d user_id model_id model_type input_data fingerprint =
     (if list_ex (p_hit user_id fingerprint) (predictions d)
      then (Inr None, d)
      else (let new_id = next_id (map p_id (predictions d))
            in (Inr (Some new_id),
                d\<lparr>predictions := predictions d @
                     [\<lparr>p_id = new_id, p_user_id = user_id, p_model_id = model_id,
                       p_model_type = model_type, p_input_data = input_data,
                       prediction_result = [], p_fingerprint = fingerprint,
                       p_status = pending\<rparr>]\<rparr>)))"

definition p_get_by_user_fingerprint :: "db \<Rightarrow> int \<Rightarrow> string \<Rightarrow> error + Prediction option" where
  "p_get_by_user_fingerprint d user_id fingerprint =
     scalar_one_or_none (filter (p_hit user_id fingerprint) (predictions d))"

text \<open>\<open>restart_existing_row\<close>: failed \<open>\<rightarrow>\<close> pending; only the status is assigned.\<close>

definition p_restart_existing_row :: "db \<Rightarrow> int \<Rightarrow> string \<Rightarrow> (error + int option) \<times> db" where
  "p_restart_existing_row d user_id fingerprint =
     (let hit = (\<lambda>r. p_hit user_id fingerprint r \<and> p_status r = failed)
      in (scalar_one_or_none (map p_id (filter hit (predictions d))),
          d\<lparr>predictions :=
               map (\<lambda>r. if hit r then r\<lparr>p_status := pending\<rparr> else r) (predictions d)\<rparr>))"

definition p_mark_applied :: "db \<Rightarrow> int \<Rightarrow> string \<Rightarrow> (error + Prediction option) \<times> db" where
  "p_mark_applied d pred_id result =
     (let hit = (\<lambda>r. p_id r = pred_id \<and> p_status r = pending);
          d' = d\<lparr>predictions :=
                    map (\<lambda>r. if hit r then r\<lparr>p_status := applied, prediction_result := result\<rparr>
                              else r)
                        (predictions d)\<rparr>
      in case scalar_one_or_none (map p_id (filter hit (predictions d))) of
           Inl e \<Rightarrow> (Inl e, d')
         | Inr None \<Rightarrow> (Inr None, d')
         | Inr (Some new_id) \<Rightarrow> (Inr (find (\<lambda>r. p_id r = new_id) (predictions d')), d'))"

definition p_mark_failed :: "db \<Rightarrow> int \<Rightarrow> db" where
  "p_mark_failed d pred_id =
     d\<lparr>predictions :=
          map (\<lambda>r. if p_id r = pred_id then r\<lparr>p_status := failed\<rparr> else r) (predictions d)\<rparr>"

section \<open>Artifacts on the filesystem\<close>

text \<open>
  The filesystem is the set of paths of the files that exist. \<open>os.replace\<close> fails when
  the source is missing; whether it fails otherwise is decided by the environment.
\<close>

type_synonym fs = "string set"

definition os_path_join :: "string \<Rightarrow> string \<Rightarrow> string" where
  "os_path_join a b =
     (if b \<noteq> [] \<and> hd b = CHR ''/'' then b
      else if a = [] \<or> last a = CHR ''/'' then a @ b
      else a @ ''/'' @ b)"

definition unique_model_path :: "int \<Rightarrow> string \<Rightarrow> string" where
  "unique_model_path user_id fp =
     os_path_join (os_path_join ''saved_models'' (int_repr user_id)) (fp @ ''.pkl'')"

definition temp_path_for :: "string \<Rightarrow> string" where
  "temp_path_for final_path = final_path @ ''.tmp''"

definition move_temp_to_final ::
    "(string \<Rightarrow> string \<Rightarrow> bool) \<Rightarrow> fs \<Rightarrow> string \<Rightarrow> string \<Rightarrow> (error + unit) \<times> fs" where
  "move_temp_to_final replace_ok files tmp_path final_path =
     (if tmp_path \<in> files \<and> replace_ok tmp_path final_path
      then (Inr (), insert final_path (files - {tmp_path}))
      else (Inl ArtifactWriteException, files))"

definition safe_unlink :: "fs \<Rightarrow> string option \<Rightarrow> fs" where
  "safe_unlink files path =
     (case path of
        None \<Rightarrow> files
      | Some p \<Rightarrow> if p = [] then files else files - {p})"

section \<open>Transition orchestrator: training\<close>

text \<open>
  The environment of one training request: the pipeline version, the outcome of the
  worker subprocess (cancelled, or exit code and standard output), whether the worker
  left its temp file, the JSON parser applied to the output, and \<open>os.replace\<close>.
\<close>

datatype worker_result = WorkerCancelled | WorkerExit int string

record train_env =
  code_hash :: string
  lock_hash :: string
  run_training_subprocess :: worker_result
  worker_wrote_tmp :: bool
  json_loads :: "string \<Rightarrow> string option"
  os_replace_ok :: "string \<Rightarrow> string \<Rightarrow> bool"

text \<open>The request after validation, as the fingerprint and the ledger row take it.\<close>

record train_request =
  csv_bytes :: string
  feats_c :: "string list"
  label_c :: string
  mt_c :: string
  params_norm :: "(string \<times> json) list"

definition parse_metrics_or_raise :: "train_env \<Rightarrow> string \<Rightarrow> string option" where
  "parse_metrics_or_raise E txt = json_loads E (if txt = [] then ''{}'' else txt)"

definition fail_and_cleanup ::
    "db \<Rightarrow> fs \<Rightarrow> int \<Rightarrow> string option \<Rightarrow> string option \<Rightarrow> db \<times> fs" where
  "fail_and_cleanup d files row_id tmp_path final_path =
     (snd (tm_mark_failed d row_id), safe_unlink (safe_unlink files tmp_path) final_path)"

text \<open>\<open>train_model\<close> from the worker command to the response (compute, charge, apply, publish).\<close>

definition train_run ::
    "train_env \<Rightarrow> db \<Rightarrow> fs \<Rightarrow> int \<Rightarrow> int \<Rightarrow> string \<Rightarrow> string \<Rightarrow> ActionType
       \<Rightarrow> (error + TrainedModel \<times> bool \<times> int) \<times> db \<times> fs" where
  "train_run E d files0 user_id row_id tmp_path final_path action =
     (let files = (if worker_wrote_tmp E then insert tmp_path files0 else files0) in
      case run_training_subprocess E of
        WorkerCancelled \<Rightarrow>
          (Inl CancelledError, fail_and_cleanup d files row_id (Some tmp_path) None)
      | WorkerExit rc out \<Rightarrow>
          if rc \<noteq> 0
          then (Inl TrainingFailedException, fail_and_cleanup d files row_id (Some tmp_path) None)
          else
            (case parse_metrics_or_raise E out of
               None \<Rightarrow>
                 (Inl TrainingFailedException,
                  fail_and_cleanup d files row_id (Some tmp_path) None)
             | Some metrics \<Rightarrow>
                 (case update_tokens d user_id (cost action) of
                    (Inl e, d1) \<Rightarrow> (Inl e, fail_and_cleanup d1 files row_id (Some tmp_path) None)
                  | (Inr balance, d1) \<Rightarrow>
                      (case tm_mark_applied d1 row_id metrics of
                         (Inl e, d2) \<Rightarrow>
                           (Inl e, fail_and_cleanup d2 files row_id (Some tmp_path) None)
                       | (Inr None, d2) \<Rightarrow>
                           (Inl TrainingFailedException,
                            fail_and_cleanup d2 files row_id (Some tmp_path) None)
                       | (Inr (Some applied_row), d2) \<Rightarrow>
                           (case move_temp_to_final (os_replace_ok E) files tmp_path final_path of
                              (Inl e, files2) \<Rightarrow>
                                (Inl e, fail_and_cleanup d2 files2 row_id
                                          (Some tmp_path) (Some final_path))
                            | (Inr _, files2) \<Rightarrow>
                                (Inr (applied_row, True, balance), d2, files2))))))"

text \<open>\<open>TrainModelService.train_model\<close>, from the fingerprint on.\<close>

definition train_model ::
    "stdlib \<Rightarrow> train_env \<Rightarrow> db \<Rightarrow> fs \<Rightarrow> int \<Rightarrow> train_request \<Rightarrow> ActionType
       \<Rightarrow> (error + TrainedModel \<times> bool \<times> int) \<times> db \<times> fs" where
  "train_model P E d files user_id req action =
     (let fp = compute_training_fingerprint P (code_hash E) (lock_hash E) (csv_bytes req)
                 (sort (feats_c req)) (label_c req) (mt_c req) (params_norm req);
          final_path = unique_model_path user_id fp;
          tmp_path = temp_path_for final_path
      in case tm_try_insert_pending d user_id (mt_c req) (feats_c req) fp final_path of
           (Inl e, d1) \<Rightarrow> (Inl e, d1, files)
         | (Inr (Some row_id), d1) \<Rightarrow>
             train_run E d1 files user_id row_id tmp_path final_path action
         | (Inr None, d1) \<Rightarrow>
             (case tm_get_by_user_fingerprint d1 user_id fp of
                Inl e \<Rightarrow> (Inl e, d1, files)
              | Inr None \<Rightarrow> (Inl TrainModelInProgressException, d1, files)
              | Inr (Some existing) \<Rightarrow>
                  if tm_status existing = pending
                  then (Inl TrainModelInProgressException, d1, files)
                  else if tm_status existing = applied
                  then (case get_tokens_by_id d1 user_id of
                          Inl e \<Rightarrow> (Inl e, d1, files)
                        | Inr fresh_balance \<Rightarrow> (Inr (existing, False, fresh_balance), d1, files))
                  else
                    (case tm_restart_existing_row d1 user_id fp of
                       (Inl e, d2) \<Rightarrow> (Inl e, d2, files)
                     | (Inr None, d2) \<Rightarrow> (Inl TrainModelInProgressException, d2, files)
                     | (Inr (Some row_id), d2) \<Rightarrow>
                         train_run E d2 files user_id row_id tmp_path final_path action)))"

section \<open>Transition orchestrator: prediction\<close>

text \<open>
  The environment of one prediction request: what deserialising the artifact does, and
  the outcome of running the estimator in the worker thread.
\<close>

datatype load_result = Loaded | LoadOSError | LoadOtherError

datatype predict_result = PredictCancelled | PredictTimeout | PredictRaises | PredictReturns string

record predict_env =
  joblib_load :: "string \<Rightarrow> load_result"
  model_predict :: predict_result

definition load_model_row_for_user ::
    "predict_env \<Rightarrow> db \<Rightarrow> fs \<Rightarrow> int \<Rightarrow> int \<Rightarrow> error + TrainedModel" where
  "load_model_row_for_user E d files user_id model_id =
     (case get_model_for_user_applied d user_id model_id of
        Inl e \<Rightarrow> Inl e
      | Inr None \<Rightarrow> Inl ModelNotFoundException
      | Inr (Some row) \<Rightarrow>
          if tm_model_path row \<notin> files then Inl ArtifactMissingException
          else (case joblib_load E (tm_model_path row) of
                  Loaded \<Rightarrow> Inr row
                | LoadOSError \<Rightarrow> Inl ArtifactMissingException
                | LoadOtherError \<Rightarrow> Inl PredictionFailedException))"

definition run_prediction ::
    "predict_env \<Rightarrow> string list \<Rightarrow> (string \<times> json) list \<Rightarrow> error + string" where
  "run_prediction E feature_order provided =
     (if set (map fst provided) \<noteq> set feature_order then Inl FeatureMismatchException
      else (case model_predict E of
              PredictCancelled \<Rightarrow> Inl CancelledError
            | PredictTimeout \<Rightarrow> Inl PredictionFailedException
            | PredictRaises \<Rightarrow> Inl PredictionFailedException
            | PredictReturns s \<Rightarrow> Inr s))"

text \<open>
  The handlers around charge and apply: only a cancellation and a
  \<open>PredictionFailedException\<close> mark the row failed; any other exception propagates.
\<close>

definition predict_apply_handler ::
    "error \<Rightarrow> db \<Rightarrow> int \<Rightarrow> (error + Prediction \<times> bool \<times> int) \<times> db" where
  "predict_apply_handler e d row_id =
     (if e = CancelledError \<or> e = PredictionFailedException
      then (Inl e, p_mark_failed d row_id)
      else (Inl e, d))"

definition predict_run ::
    "predict_env \<Rightarrow> db \<Rightarrow> int \<Rightarrow> int \<Rightarrow> TrainedModel \<Rightarrow> (string \<times> json) list \<Rightarrow> ActionType
       \<Rightarrow> (error + Prediction \<times> bool \<times> int) \<times> db" where
  "predict_run E d user_id row_id tm_row feature_values action =
     (case run_prediction E (tm_features tm_row) feature_values of
        Inl e \<Rightarrow>
          if e = CancelledError then (Inl CancelledError, p_mark_failed d row_id)
          else (Inl PredictionFailedException, p_mark_failed d row_id)
      | Inr result_str \<Rightarrow>
          (case update_tokens d user_id (cost action) of
             (Inl e, d1) \<Rightarrow> predict_apply_handler e d1 row_id
           | (Inr balance, d1) \<Rightarrow>
               (case p_mark_applied d1 row_id result_str of
                  (Inl e, d2) \<Rightarrow> predict_apply_handler e d2 row_id
                | (Inr None, d2) \<Rightarrow> predict_apply_handler PredictionFailedException d2 row_id
                | (Inr (Some applied_row), d2) \<Rightarrow> (Inr (applied_row, True, balance), d2))))"

text \<open>\<open>PredictionService.predict\<close>.\<close>

definition predict ::
    "stdlib \<Rightarrow> predict_env \<Rightarrow> db \<Rightarrow> fs \<Rightarrow> int \<Rightarrow> int \<Rightarrow> (string \<times> json) list \<Rightarrow> ActionType
       \<Rightarrow> (error + Prediction \<times> bool \<times> int) \<times> db" where
  "predict P E d files user_id model_id feature_values action =
     (case load_model_row_for_user E d files user_id model_id of
        Inl e \<Rightarrow> (Inl e, d)
      | Inr tm_row \<Rightarrow>
          (let fp = compute_prediction_fingerprint P (tm_id tm_row) feature_values in
           case p_try_insert_pending d user_id (tm_id tm_row) (tm_model_type tm_row)
                  feature_values fp of
             (Inl e, d1) \<Rightarrow> (Inl e, d1)
           | (Inr (Some row_id), d1) \<Rightarrow>
               predict_run E d1 user_id row_id tm_row feature_values action
           | (Inr None, d1) \<Rightarrow>
               (case p_get_by_user_fingerprint d1 user_id fp of
                  Inl e \<Rightarrow> (Inl e, d1)
                | Inr None \<Rightarrow> (Inl PredictionInProgressException, d1)
                | Inr (Some existing) \<Rightarrow>
                    if p_status existing = pending
                    then (Inl PredictionInProgressException, d1)
                    else if p_status existing = applied
                    then (case get_tokens_by_id d1 user_id of
                            Inl e \<Rightarrow> (Inl e, d1)
                          | Inr fresh_balance \<Rightarrow> (Inr (existing, False, fresh_balance), d1))
                    else
                      (case p_restart_existing_row d1 user_id fp of
                         (Inl e, d2) \<Rightarrow> (Inl e, d2)
                       | (Inr None, d2) \<Rightarrow> (Inl PredictionInProgressException, d2)
                       | (Inr (Some row_id), d2) \<Rightarrow>
                           predict_run E d2 user_id row_id tm_row feature_values action))))"

section \<open>Startup reconciler\<close>

text \<open>
  \<open>mark_failed_safely\<close>: \<open>with suppress(Exception): async with db.begin(): mark_failed\<close>.
  The first argument tells whether a transaction is already begun on the session (any
  statement executed on it begins one). Then \<open>db.begin()\<close> raises, the exception is
  swallowed, and \<open>mark_failed\<close> does not run: nothing is written. Otherwise
  \<open>mark_failed\<close> runs in a transaction of its own, which is committed.
\<close>

definition mark_failed_safely :: "bool \<Rightarrow> db \<Rightarrow> int \<Rightarrow> db" where
  "mark_failed_safely begun d tm_id' = (if begun then d else snd (tm_mark_failed d tm_id'))"

definition inspect_paths ::
    "fs \<Rightarrow> string option \<Rightarrow> string option \<times> string option \<times> bool \<times> bool" where
  "inspect_paths files final_path =
     (case final_path of
        None \<Rightarrow> (None, None, False, False)
      | Some p \<Rightarrow>
          if p = [] then (None, None, False, False)
          else (Some p, Some (p @ ''.tmp''), p \<in> files, p @ ''.tmp'' \<in> files))"

definition finish_publish_or_fail ::
    "(string \<Rightarrow> string \<Rightarrow> bool) \<Rightarrow> bool \<Rightarrow> db \<Rightarrow> fs \<Rightarrow> int \<Rightarrow> string option \<Rightarrow> db \<times> fs" where
  "finish_publish_or_fail replace_ok begun d files tm_id' final_path0 =
     (case inspect_paths files final_path0 of
        (None, _, _, _) \<Rightarrow> (mark_failed_safely begun d tm_id', files)
      | (Some final_path, tmp_path, final_exists, tmp_exists) \<Rightarrow>
          if final_exists then (d, files)
          else
            (case tmp_path of
               Some tmp \<Rightarrow>
                 if tmp_exists \<and> tmp \<noteq> [] then
                   (case move_temp_to_final replace_ok files tmp final_path of
                      (Inr _, files') \<Rightarrow> (d, files')
                    | (Inl _, files') \<Rightarrow>
                        (mark_failed_safely begun d tm_id',
                         safe_unlink (safe_unlink files' (Some tmp)) (Some final_path)))
                 else (mark_failed_safely begun d tm_id', files)
             | None \<Rightarrow> (mark_failed_safely begun d tm_id', files)))"

definition fail_pending_and_clean_tmp ::
    "bool \<Rightarrow> db \<Rightarrow> fs \<Rightarrow> int \<Rightarrow> string option \<Rightarrow> db \<times> fs" where
  "fail_pending_and_clean_tmp begun d files tm_id' final_path =
     (let d' = mark_failed_safely begun d tm_id';
          tmp = (case final_path of
                   None \<Rightarrow> None
                 | Some p \<Rightarrow> if p = [] then None else Some (p @ ''.tmp''))
      in (d', safe_unlink files tmp))"

definition select_id_path :: "RowStatus \<Rightarrow> db \<Rightarrow> (int \<times> string) list" where
  "select_id_path st d =
     map (\<lambda>r. (tm_id r, tm_model_path r)) (filter (\<lambda>r. tm_status r = st) (trained_models d))"

text \<open>
  \<open>reconcile_trained_models_on_startup\<close>. The SELECT that opens the function begins
  the session's transaction, and nothing ends it: both loops call their helpers on a
  session whose transaction is begun.
\<close>

definition reconcile_trained_models_on_startup ::
    "(string \<Rightarrow> string \<Rightarrow> bool) \<Rightarrow> db \<Rightarrow> fs \<Rightarrow> db \<times> fs" where
  "reconcile_trained_models_on_startup replace_ok d files =
     (let s1 = fold (\<lambda>(i, path) (d', files').
                       finish_publish_or_fail replace_ok True d' files' i (Some path))
                    (select_id_path applied d) (d, files)
      in fold (\<lambda>(i, path) (d', files'). fail_pending_and_clean_tmp True d' files' i (Some path))
              (select_id_path pending (fst s1)) s1)"

text \<open>\<open>reconcile_predictions_on_startup\<close>: one UPDATE on the session.\<close>

definition reconcile_predictions_on_startup :: "db \<Rightarrow> db" where
  "reconcile_predictions_on_startup d =
     d\<lparr>predictions :=
          map (\<lambda>r. if p_status r = pending then r\<lparr>p_status := failed\<rparr> else r) (predictions d)\<rparr>"

text \<open>
  The reconciliation of \<open>on_startup\<close>: both reconcilers run on one session opened by
  \<open>async with SessionLocal() as db\<close>, which is closed without a commit. What the session
  wrote is rolled back: the tables afterwards are those before; the files keep the
  renames and deletions.
\<close>

definition reconcile_on_startup ::
    "(string \<Rightarrow> string \<Rightarrow> bool) \<Rightarrow> db \<Rightarrow> fs \<Rightarrow> db \<times> fs" where
  "reconcile_on_startup replace_ok d files =
     (case reconcile_trained_models_on_startup replace_ok d files of
        (d1, files1) \<Rightarrow>
          (case reconcile_predictions_on_startup d1 of session_view \<Rightarrow> (d, files1)))"

section \<open>Example states\<close>

text \<open>Small concrete tables on which the theorems below are instantiated.\<close>

definition pending_row :: "int \<Rightarrow> string \<Rightarrow> TokenCredit" where
  "pending_row user_id key =
     \<lparr>tc_user_id = user_id, tc_key = key, tc_open_balance = None, tc_status = pending\<rparr>"

definition example_users :: "int \<rightharpoonup> User" where
  "example_users =
     [1 \<mapsto> \<lparr>tokens = 7, is_active = True\<rparr>,
      2 \<mapsto> \<lparr>tokens = 0, is_active = True\<rparr>,
      3 \<mapsto> \<lparr>tokens = 0, is_active = False\<rparr>]"

definition example_db :: db where
  "example_db = \<lparr>users = example_users, token_credits = [], trained_models = [],
                  predictions = [], auth_sessions = []\<rparr>"

definition example_stdlib :: stdlib where
  "example_stdlib =
     \<lparr>sha256_hexdigest = (\<lambda>s. ''h:'' @ s),
      encode_basestring_ascii = (\<lambda>s. ''<'' @ s @ ''>''),
      float_repr = (\<lambda>w. ''f'')\<rparr>"

definition example_gen :: "nat \<Rightarrow> string \<times> int" where
  "example_gen i = (''T2'', 100)"

definition example_session :: AuthSession where
  "example_session =
     \<lparr>as_user_id = 1, session_id = ''S'', refresh_token_hash = ''h:T1'',
      last_token_hash = None, revoked = False, expires_at = 3600,
      absolute_expires_at = 86400\<rparr>"

definition example_auth_db :: "AuthSession \<Rightarrow> db" where
  "example_auth_db s = example_db\<lparr>auth_sessions := [s]\<rparr>"

definition example_model :: TrainedModel where
  "example_model =
     \<lparr>tm_id = 7, tm_user_id = 1, tm_model_type = ''linear'', tm_features = [''x''],
      tm_metrics = Some ''{\"r2\":1}'', tm_fingerprint = ''fp7'',
      tm_model_path = ''saved_models/1/fp7.pkl'', tm_status = applied\<rparr>"

definition example_prediction :: Prediction where
  "example_prediction =
     \<lparr>p_id = 5, p_user_id = 1, p_model_id = 7, p_model_type = ''linear'',
      p_input_data = [(''x'', JInt 3)], prediction_result = ''42'',
      p_fingerprint = compute_prediction_fingerprint example_stdlib 7 [(''x'', JInt 3)],
      p_status = applied\<rparr>"

definition example_predict_env :: predict_env where
  "example_predict_env = \<lparr>joblib_load = (\<lambda>p. Loaded), model_predict = PredictReturns ''43''\<rparr>"

definition example_train_env :: train_env where
  "example_train_env =
     \<lparr>code_hash = ''c0'', lock_hash = ''l0'',
      run_training_subprocess = WorkerExit 0 ''{\"r2\":1}'',
      worker_wrote_tmp = True, json_loads = Some,
      os_replace_ok = (\<lambda>src dst. True)\<rparr>"

definition example_train_request :: train_request where
  "example_train_request =
     \<lparr>csv_bytes = ''x,y'', feats_c = [''x''], label_c = ''y'', mt_c = ''linear'',
      params_norm = []\<rparr>"




definition crashed_row :: "int \<Rightarrow> string \<Rightarrow> RowStatus \<Rightarrow> TrainedModel" where
  "crashed_row i path st =
     example_model\<lparr>tm_id := i, tm_fingerprint := path, tm_model_path := path, tm_status := st\<rparr>"

definition example_crashed_db :: db where
  "example_crashed_db =
     example_db\<lparr>trained_models :=
                  [crashed_row 1 ''m/1.pkl'' applied, crashed_row 2 ''m/2.pkl'' applied,
                   crashed_row 3 ''m/3.pkl'' applied, crashed_row 4 ''m/4.pkl'' pending,
                   crashed_row 5 ''m/5.pkl'' applied],
                predictions := [example_prediction\<lparr>p_status := pending\<rparr>]\<rparr>"

definition example_crashed_files :: fs where
  "example_crashed_files = {''m/1.pkl'', ''m/2.pkl.tmp'', ''m/4.pkl.tmp'', ''m/5.pkl.tmp''}"

definition example_replace_ok :: "string \<Rightarrow> string \<Rightarrow> bool" where
  "example_replace_ok src dst \<longleftrightarrow> dst = ''m/2.pkl''"

definition example_spent_db :: db where
  "example_spent_db = example_db\<lparr>users := example_users(1 \<mapsto> \<lparr>tokens = 0, is_active = True\<rparr>)\<rparr>"



section \<open>Token ledger: properties\<close>

lemma tc_update_fresh:
  assumes "\<not> tc_has_key d user_id key"
      and "ck_token_credits_open_balance_when_applied (f r)" and "tc_matches user_id key r"
  shows "tc_update (d\<lparr>token_credits := token_credits d @ [r]\<rparr>) user_id key f
           = (Inr (), d\<lparr>token_credits := token_credits d @ [f r]\<rparr>)"
proof -
  have n: "\<forall>x\<in>set (token_credits d). \<not> tc_matches user_id key x"
    using assms(1) by (simp add: tc_has_key_def list_ex_iff)
  have "map (\<lambda>r. if tc_matches user_id key r then f r else r) (token_credits d) = token_credits d"
    using n by (simp add: map_idI)
  moreover have "list_all (\<lambda>r. tc_matches user_id key r \<longrightarrow>
                   ck_token_credits_open_balance_when_applied (f r)) (token_credits d)"
    using n by (simp add: list_all_iff)
  ultimately show ?thesis using assms(2,3)
    by (simp add: tc_update_def)
qed

lemma tc_update_fresh_bad:
  assumes "\<not> ck_token_credits_open_balance_when_applied (f r)" and "tc_matches user_id key r"
  shows "tc_update (d\<lparr>token_credits := token_credits d @ [r]\<rparr>) user_id key f
           = (Inl IntegrityError, d\<lparr>token_credits := token_credits d @ [r]\<rparr>)"
  using assms by (simp add: tc_update_def)

lemma get_by_key_fresh:
  assumes "\<not> tc_has_key d user_id key" and "tc_matches user_id key r"
  shows "get_by_key_status_open_balance (d'\<lparr>token_credits := token_credits d @ [r]\<rparr>) user_id key
           = Some (tc_status r, tc_open_balance r)"
proof -
  have "filter (tc_matches user_id key) (token_credits d) = []"
    using assms(1) by (simp add: tc_has_key_def list_ex_iff filter_empty_conv)
  then show ?thesis using assms(2) by (simp add: get_by_key_status_open_balance_def)
qed

lemma add_tokens_frame:
  "add_tokens (d\<lparr>token_credits := x\<rparr>) user_id amount =
     (fst (add_tokens d user_id amount), (snd (add_tokens d user_id amount))\<lparr>token_credits := x\<rparr>)"
  by (simp add: add_tokens_def split: option.splits)

lemma add_tokens_token_credits:
  "token_credits (snd (add_tokens d user_id amount)) = token_credits d"
  by (simp add: add_tokens_def split: option.splits)

text \<open>The first call for a key: what it returns and the ledger row it leaves.\<close>

lemma buy_tokens_first:
  assumes "\<not> tc_has_key d user_id key" and "\<not> tc_has_pending d user_id"
  shows "buy_tokens d user_id amount key =
     (case add_tokens d user_id amount of
        (Inl e, d2) \<Rightarrow>
          (Inl e, d2\<lparr>token_credits := token_credits d @ [pending_row user_id key]\<rparr>)
      | (Inr None, d2) \<Rightarrow>
          (Inl BalanceMustBeZeroException,
           d2\<lparr>token_credits := token_credits d @ [(pending_row user_id key)\<lparr>tc_status := failed\<rparr>]\<rparr>)
      | (Inr (Some nb), d2) \<Rightarrow>
          if 1 \<le> nb \<and> nb \<le> 100
          then (Inr nb, d2\<lparr>token_credits := token_credits d @
                   [(pending_row user_id key)\<lparr>tc_status := applied, tc_open_balance := Some nb\<rparr>]\<rparr>)
          else (Inl IntegrityError,
                d2\<lparr>token_credits := token_credits d @ [pending_row user_id key]\<rparr>))"
proof -
  obtain r d2 where a: "add_tokens d user_id amount = (r, d2)" by (cases "add_tokens d user_id amount")
  have tc2: "token_credits d2 = token_credits d"
    using add_tokens_token_credits [of d user_id amount] a by simp
  have k2: "\<not> tc_has_key d2 user_id key" using assms(1) tc2 by (simp add: tc_has_key_def)
  have m: "tc_matches user_id key (pending_row user_id key)"
    by (simp add: tc_matches_def pending_row_def)
  have ins: "tc_try_insert_pending d user_id key =
          (Inr True, d\<lparr>token_credits := token_credits d @ [pending_row user_id key]\<rparr>)"
    using assms by (simp add: tc_try_insert_pending_def pending_row_def)
  have add: "add_tokens (d\<lparr>token_credits := token_credits d @ [pending_row user_id key]\<rparr>) user_id amount
       = (r, d2\<lparr>token_credits := token_credits d2 @ [pending_row user_id key]\<rparr>)"
    by (simp add: add_tokens_frame a tc2)
  have mf: "tc_mark_failed (d2\<lparr>token_credits := token_credits d2 @ [pending_row user_id key]\<rparr>) user_id key
       = (Inr (), d2\<lparr>token_credits := token_credits d2 @ [(pending_row user_id key)\<lparr>tc_status := failed\<rparr>]\<rparr>)"
    unfolding tc_mark_failed_def
    by (rule tc_update_fresh [OF k2 _ m])
       (simp add: ck_token_credits_open_balance_when_applied_def pending_row_def)
  have ma: "tc_mark_applied (d2\<lparr>token_credits := token_credits d2 @ [pending_row user_id key]\<rparr>) user_id key nb
       = (if 1 \<le> nb \<and> nb \<le> 100
          then (Inr (), d2\<lparr>token_credits := token_credits d2 @
                   [(pending_row user_id key)\<lparr>tc_status := applied, tc_open_balance := Some nb\<rparr>]\<rparr>)
          else (Inl IntegrityError, d2\<lparr>token_credits := token_credits d2 @ [pending_row user_id key]\<rparr>))" for nb
  proof (cases "1 \<le> nb \<and> nb \<le> 100")
    case True
    then show ?thesis unfolding tc_mark_applied_def
      by (subst tc_update_fresh [OF k2 _ m])
         (simp_all add: ck_token_credits_open_balance_when_applied_def)
  next
    case False
    then show ?thesis unfolding tc_mark_applied_def
      by (subst tc_update_fresh_bad [OF _ m])
         (auto simp add: ck_token_credits_open_balance_when_applied_def)
  qed
  show ?thesis
    unfolding buy_tokens_def ins
    by (simp add: add a mf [unfolded tc2] ma [unfolded tc2] tc2 split: sum.splits option.splits)
qed

text \<open>A later call for a key that has a row: the ledger decides, nothing is written.\<close>

lemma buy_tokens_replay:
  assumes "tc_has_key d user_id key"
  shows "buy_tokens d user_id amount key =
     (case get_by_key_status_open_balance d user_id key of
        Some (applied, Some open_balance) \<Rightarrow> (Inr open_balance, d)
      | Some (failed, _) \<Rightarrow> (Inl BalanceMustBeZeroException, d)
      | _ \<Rightarrow> (Inl PurchaseInProgressException, d))"
  using assms
  by (simp add: buy_tokens_def tc_try_insert_pending_def
           split: option.splits RowStatus.splits prod.splits)

lemma buy_tokens_blocked:
  assumes "\<not> tc_has_key d user_id key" and "tc_has_pending d user_id"
  shows "buy_tokens d user_id amount key = (Inl IntegrityError, d)"
  using assms by (simp add: buy_tokens_def tc_try_insert_pending_def)

lemma has_key_append: "tc_has_key (d'\<lparr>token_credits := token_credits d @ [r]\<rparr>) user_id key \<longleftrightarrow>
   tc_has_key d user_id key \<or> tc_matches user_id key r"
  by (auto simp add: tc_has_key_def list_ex_iff)

lemma get_by_key_has_key:
  "get_by_key_status_open_balance d user_id key = Some x \<Longrightarrow> tc_has_key d user_id key"
  by (auto simp add: get_by_key_status_open_balance_def tc_has_key_def list_ex_iff
           split: list.splits dest: filter_eq_ConsD)

lemma add_tokens_error:
  "add_tokens d user_id amount = (Inl e, d2) \<Longrightarrow> e = IntegrityError"
  by (auto simp add: add_tokens_def split: option.splits if_splits)

text \<open>What the ledger holds for the key once a call has returned.\<close>

lemma buy_tokens_outcome_recorded:
  assumes "buy_tokens d user_id amount key = (r, d')"
  shows "(r = Inr b \<longrightarrow> get_by_key_status_open_balance d' user_id key = Some (applied, Some b))
       \<and> (r = Inl BalanceMustBeZeroException \<longrightarrow>
            (\<exists>ob. get_by_key_status_open_balance d' user_id key = Some (failed, ob)))
       \<and> (tc_has_key d' user_id key \<or> tc_has_pending d' user_id)"
proof (cases "tc_has_key d user_id key")
  case True
  then show ?thesis using assms
    by (auto simp add: buy_tokens_replay split: option.splits RowStatus.splits prod.splits)
next
  case False
  show ?thesis
  proof (cases "tc_has_pending d user_id")
    case True
    with False show ?thesis using assms by (auto simp add: buy_tokens_blocked)
  next
    case np: False
    have m: "tc_matches user_id key (pending_row user_id key)"
      by (simp add: tc_matches_def pending_row_def)
    have g: "get_by_key_status_open_balance (d2\<lparr>token_credits := token_credits d @ [f (pending_row user_id key)]\<rparr>) user_id key
          = Some (tc_status (f (pending_row user_id key)), tc_open_balance (f (pending_row user_id key)))"
      if "tc_matches user_id key (f (pending_row user_id key))" for d2 f
      using get_by_key_fresh [OF False that] .
    have g1: "get_by_key_status_open_balance (d2\<lparr>token_credits := token_credits d @
                [(pending_row user_id key)\<lparr>tc_status := applied, tc_open_balance := Some nb\<rparr>]\<rparr>) user_id key
          = Some (applied, Some nb)" for d2 nb
      using g [of "\<lambda>r. r\<lparr>tc_status := applied, tc_open_balance := Some nb\<rparr>" d2] m
      by (simp add: tc_matches_def)
    have g2: "get_by_key_status_open_balance (d2\<lparr>token_credits := token_credits d @
                [(pending_row user_id key)\<lparr>tc_status := failed\<rparr>]\<rparr>) user_id key
          = Some (failed, None)" for d2
      using g [of "\<lambda>r. r\<lparr>tc_status := failed\<rparr>" d2] m
      by (simp add: tc_matches_def pending_row_def)
    show ?thesis using assms m
      by (auto simp add: buy_tokens_first [OF False np] g1 g2 has_key_append tc_matches_def
               split: prod.splits sum.splits option.splits if_splits
               dest: add_tokens_error)
  qed
qed

lemmas ledger_eval = buy_tokens_def tc_try_insert_pending_def tc_has_key_def tc_has_pending_def
  add_tokens_def ck_users_tokens_0_1000_def tc_mark_applied_def tc_mark_failed_def tc_update_def
  tc_matches_def ck_token_credits_open_balance_when_applied_def get_by_key_status_open_balance_def
  example_db_def example_users_def example_spent_db_def get_db_def update_tokens_def

text \<open>
  C4. For an existing owner whose balance respects the bounds of the table, and a cost
  that is not negative: the debit returns balance - cost and stores it exactly when
  balance \<ge> cost, and otherwise raises \<open>NotEnoughTokensException\<close> and leaves the
  session unchanged; the stored balance is never negative afterwards. The credit returns
  a new balance only when the balance is 0, and returns None without any change when the
  balance is not 0.
\<close>

theorem debit_credit_conditional:
  assumes "users d user_id = Some u" and "0 \<le> c" and "ck_users_tokens_0_1000 (tokens u)"
  shows "update_tokens d user_id c =
           (if c \<le> tokens u
            then (Inr (tokens u - c),
                  d\<lparr>users := (users d)(user_id \<mapsto> u\<lparr>tokens := tokens u - c\<rparr>)\<rparr>)
            else (Inl NotEnoughTokensException, d))
         \<and> (\<forall>u'. users (snd (update_tokens d user_id c)) user_id = Some u' \<longrightarrow> 0 \<le> tokens u')
         \<and> ((\<exists>b d'. add_tokens d user_id amount = (Inr (Some b), d')) \<longrightarrow> tokens u = 0)
         \<and> (tokens u \<noteq> 0 \<longrightarrow> add_tokens d user_id amount = (Inr None, d))"
  using assms
  by (auto simp: update_tokens_def add_tokens_def ck_users_tokens_0_1000_def split: if_splits)

theorem debit_credit_conditional_witness:
  "update_tokens example_db 1 5 =
     (Inr 2, example_db\<lparr>users := example_users(1 \<mapsto> \<lparr>tokens = 2, is_active = True\<rparr>)\<rparr>)
   \<and> update_tokens example_db 1 8 = (Inl NotEnoughTokensException, example_db)
   \<and> add_tokens example_db 1 10 = (Inr None, example_db)"
  using debit_credit_conditional [of example_db 1 "\<lparr>tokens = 7, is_active = True\<rparr>" 5 10]
        debit_credit_conditional [of example_db 1 "\<lparr>tokens = 7, is_active = True\<rparr>" 8 10]
  by (simp add: example_db_def example_users_def ck_users_tokens_0_1000_def)



text \<open>
  At the level of requests: a purchase that has returned a balance is committed with its
  applied row, and a later request with the key returns that balance and writes nothing.
\<close>

lemma applied_purchase_replays:
  assumes "get_db (\<lambda>s. buy_tokens s user_id amount key) d = (Inr b, d')"
  shows "get_db (\<lambda>s. buy_tokens s user_id amount' key) d' = (Inr b, d')"
proof -
  have a: "buy_tokens d user_id amount key = (Inr b, d')"
    using assms by (auto simp add: get_db_def split: prod.splits sum.splits)
  have g: "get_by_key_status_open_balance d' user_id key = Some (applied, Some b)"
    using buy_tokens_outcome_recorded [OF a, of b] by simp
  have "buy_tokens d' user_id amount' key = (Inr b, d')"
    using buy_tokens_replay [OF get_by_key_has_key [OF g]] g by simp
  then show ?thesis by (simp add: get_db_def)
qed

text \<open>
  C3. The replay of a failed purchase. The owner's balance is 7: the purchase with key k1
  marks its ledger row failed and raises \<open>BalanceMustBeZeroException\<close>, and the
  request's transaction is rolled back, so no row for the key remains. After two
  charges have brought the balance to 0, the purchase with the same key k1 is a first
  call again: it credits 10 and returns the balance, instead of raising the same
  policy violation.
\<close>

theorem failed_purchase_not_replayed:
  "get_db (\<lambda>s. buy_tokens s 1 10 ''k1'') example_db
     = (Inl BalanceMustBeZeroException, example_db)
   \<and> snd (update_tokens (snd (update_tokens example_db 1 (cost PREDICTION))) 1 (cost ASSIST))
     = example_spent_db
   \<and> get_db (\<lambda>s. buy_tokens s 1 10 ''k1'') example_spent_db
     = (Inr 10,
        example_db\<lparr>users := example_users(1 \<mapsto> \<lparr>tokens = 10, is_active = True\<rparr>),
                   token_credits :=
                     [\<lparr>tc_user_id = 1, tc_key = ''k1'', tc_open_balance = Some 10,
                       tc_status = applied\<rparr>]\<rparr>)"
  by (simp add: ledger_eval)
section \<open>Session rotation chain: properties\<close>

lemmas auth_eval = rotate_refresh_token_def get_refresh_token_def hash_token_def
  ar_rotate_refresh_token_def revoke_by_session_def MAX_TOKEN_GENERATION_RETRIES_def
  example_stdlib_def example_gen_def example_session_def example_auth_db_def
  example_db_def example_users_def numeral_3_eq_3

text \<open>
  C1. The reuse of a superseded refresh token. A session whose current token is T1 is
  rotated and hands out T2; T1 is then presented again. The lookup is by the current
  hash, which is now that of T2, so no row is found: the request is rejected with
  \<open>InvalidTokenException\<close>, not with the reuse-detection error, and the session stays
  unrevoked.
\<close>

theorem reuse_of_superseded_token_not_detected:
  "rotate_refresh_token example_stdlib 100 100 example_gen (example_auth_db example_session) ''T1''
     = (Inr ''T2'',
        example_auth_db (example_session\<lparr>refresh_token_hash := ''h:T2'',
                                          last_token_hash := Some ''h:T1'',
                                          expires_at := 3700\<rparr>))
   \<and> rotate_refresh_token example_stdlib 200 200 example_gen
        (example_auth_db (example_session\<lparr>refresh_token_hash := ''h:T2'',
                                           last_token_hash := Some ''h:T1'',
                                           expires_at := 3700\<rparr>)) ''T1''
     = (Inl InvalidTokenException,
        example_auth_db (example_session\<lparr>refresh_token_hash := ''h:T2'',
                                          last_token_hash := Some ''h:T1'',
                                          expires_at := 3700\<rparr>))
   \<and> revoked (example_session\<lparr>refresh_token_hash := ''h:T2'',
                                last_token_hash := Some ''h:T1'',
                                expires_at := 3700\<rparr>) = False"
  by (simp add: auth_eval)




section \<open>Operation ledger: properties\<close>



lemma filter_single_list_ex: "filter Q xs = [x] \<Longrightarrow> list_ex Q xs"
  by (metis filter_empty_conv list.distinct(1) list_ex_iff)

lemmas svc_eval = predict_def load_model_row_for_user_def get_model_for_user_applied_def
  scalar_one_or_none_def p_hit_def tm_hit_def example_db_def example_users_def
  example_model_def example_prediction_def example_predict_env_def
  p_try_insert_pending_def p_get_by_user_fingerprint_def get_tokens_by_id_def




text \<open>
  C2, as stated, fails for prediction: the model row and its artifact are loaded before
  the ledger is consulted. When the trained model is no longer an applied row of the
  owner, a submission whose (owner, fingerprint) row is applied raises
  \<open>ModelNotFoundException\<close> instead of returning the stored result.
\<close>

theorem applied_prediction_not_replayed_counterexample:
  "p_status example_prediction = applied
   \<and> p_hit 1 (compute_prediction_fingerprint example_stdlib 7 [(''x'', JInt 3)]) example_prediction
   \<and> predict example_stdlib example_predict_env
        (example_db\<lparr>trained_models := [example_model\<lparr>tm_status := failed\<rparr>],
                    predictions := [example_prediction]\<rparr>)
        {} 1 7 [(''x'', JInt 3)] PREDICTION
     = (Inl ModelNotFoundException,
        example_db\<lparr>trained_models := [example_model\<lparr>tm_status := failed\<rparr>],
                   predictions := [example_prediction]\<rparr>)"
  by (simp add: svc_eval)

text \<open>
  C2, amended. When the owner's row exists and the (owner, fingerprint) row is the one
  applied row of the ledger: a training submission returns that row with its stored
  result, uncharged, with the owner's current balance, and leaves the session and the
  files unchanged whatever the worker would do; a prediction submission does the same
  provided the trained model is still an applied row of the owner and its artifact
  loads. When the load fails, the prediction raises the load's exception and changes
  nothing.
\<close>

theorem applied_replay:
  "(users d user_id = Some u
     \<and> filter (tm_hit user_id
          (compute_training_fingerprint P (code_hash E) (lock_hash E) (csv_bytes req)
             (sort (feats_c req)) (label_c req) (mt_c req) (params_norm req)))
          (trained_models d) = [existing]
     \<and> tm_status existing = applied
     \<longrightarrow> train_model P E d files user_id req action
           = (Inr (existing, False, tokens u), d, files))
   \<and> (users d user_id = Some u
     \<and> load_model_row_for_user E' d files user_id model_id = Inr tm_row
     \<and> filter (p_hit user_id (compute_prediction_fingerprint P (tm_id tm_row) feature_values))
          (predictions d) = [existing']
     \<and> p_status existing' = applied
     \<longrightarrow> predict P E' d files user_id model_id feature_values action
           = (Inr (existing', False, tokens u), d))
   \<and> (load_model_row_for_user E' d files user_id model_id = Inl e
     \<longrightarrow> predict P E' d files user_id model_id feature_values action = (Inl e, d))"
  by (auto simp add: train_model_def predict_def Let_def tm_try_insert_pending_def
        p_try_insert_pending_def tm_get_by_user_fingerprint_def p_get_by_user_fingerprint_def
        scalar_one_or_none_def get_tokens_by_id_def
        dest: filter_single_list_ex)

theorem applied_replay_witness:
  "train_model example_stdlib example_train_env
      (example_db\<lparr>trained_models :=
         [example_model\<lparr>tm_fingerprint :=
            compute_training_fingerprint example_stdlib ''c0'' ''l0'' ''x,y'' [''x''] ''y''
              ''linear'' []\<rparr>]\<rparr>)
      {} 1 example_train_request TRAINING
     = (Inr (example_model\<lparr>tm_fingerprint :=
               compute_training_fingerprint example_stdlib ''c0'' ''l0'' ''x,y'' [''x''] ''y''
                 ''linear'' []\<rparr>, False, 7),
        example_db\<lparr>trained_models :=
          [example_model\<lparr>tm_fingerprint :=
             compute_training_fingerprint example_stdlib ''c0'' ''l0'' ''x,y'' [''x''] ''y''
               ''linear'' []\<rparr>]\<rparr>, {})
   \<and> predict example_stdlib example_predict_env
        (example_db\<lparr>trained_models := [example_model], predictions := [example_prediction]\<rparr>)
        {''saved_models/1/fp7.pkl''} 1 7 [(''x'', JInt 3)] PREDICTION
     = (Inr (example_prediction, False, 7),
        example_db\<lparr>trained_models := [example_model], predictions := [example_prediction]\<rparr>)
   \<and> predict example_stdlib example_predict_env
        (example_db\<lparr>trained_models := [example_model], predictions := [example_prediction]\<rparr>)
        {} 1 7 [(''x'', JInt 3)] PREDICTION
     = (Inl ArtifactMissingException,
        example_db\<lparr>trained_models := [example_model], predictions := [example_prediction]\<rparr>)"
  using applied_replay
          [where d = "example_db\<lparr>trained_models :=
                 [example_model\<lparr>tm_fingerprint :=
                    compute_training_fingerprint example_stdlib ''c0'' ''l0'' ''x,y'' [''x''] ''y''
                      ''linear'' []\<rparr>]\<rparr>"
             and user_id = 1 and u = "\<lparr>tokens = 7, is_active = True\<rparr>"
             and P = example_stdlib and E = example_train_env and req = example_train_request
             and existing = "example_model\<lparr>tm_fingerprint :=
                 compute_training_fingerprint example_stdlib ''c0'' ''l0'' ''x,y'' [''x''] ''y''
                   ''linear'' []\<rparr>"
             and files = "{}" and action = TRAINING]
        applied_replay
          [where d = "example_db\<lparr>trained_models := [example_model],
                                  predictions := [example_prediction]\<rparr>"
             and user_id = 1 and u = "\<lparr>tokens = 7, is_active = True\<rparr>"
             and P = example_stdlib and E' = example_predict_env and model_id = 7
             and tm_row = example_model and feature_values = "[(''x'', JInt 3)]"
             and existing' = example_prediction
             and files = "{''saved_models/1/fp7.pkl''}" and action = PREDICTION]
        applied_replay
          [where d = "example_db\<lparr>trained_models := [example_model],
                                  predictions := [example_prediction]\<rparr>"
             and P = example_stdlib and E' = example_predict_env and model_id = 7
             and user_id = 1 and feature_values = "[(''x'', JInt 3)]"
             and files = "{}" and action = PREDICTION and e = ArtifactMissingException]
  by (simp add: svc_eval example_train_env_def example_train_request_def)

section \<open>Startup reconciler: properties\<close>

lemma finish_publish_or_fail_db:
  "fst (finish_publish_or_fail ok True d files i p) = d"
  by (simp add: finish_publish_or_fail_def mark_failed_safely_def
           split: prod.splits option.splits sum.splits)

lemma fail_pending_and_clean_tmp_db:
  "fst (fail_pending_and_clean_tmp True d files i p) = d"
  by (simp add: fail_pending_and_clean_tmp_def mark_failed_safely_def Let_def)

lemma fold_finish_db:
  "fst (fold (\<lambda>(i, path) (d', files'). finish_publish_or_fail ok True d' files' i (Some path))
             l (d, files)) = d"
proof (induction l arbitrary: files)
  case Nil
  then show ?case by simp
next
  case (Cons x l)
  obtain i p where x: "x = (i, p)" by (cases x)
  obtain files1 where s: "finish_publish_or_fail ok True d files i (Some p) = (d, files1)"
    using finish_publish_or_fail_db [of ok d files i "Some p"]
    by (cases "finish_publish_or_fail ok True d files i (Some p)") simp
  show ?case by (simp add: x s Cons.IH)
qed

lemma fold_fail_pending_db:
  "fst (fold (\<lambda>(i, path) (d', files'). fail_pending_and_clean_tmp True d' files' i (Some path))
             l (d, files)) = d"
proof (induction l arbitrary: files)
  case Nil
  then show ?case by simp
next
  case (Cons x l)
  obtain i p where x: "x = (i, p)" by (cases x)
  obtain files1 where s: "fail_pending_and_clean_tmp True d files i (Some p) = (d, files1)"
    using fail_pending_and_clean_tmp_db [of d files i "Some p"]
    by (cases "fail_pending_and_clean_tmp True d files i (Some p)") simp
  show ?case by (simp add: x s Cons.IH)
qed

text \<open>
  On any tables and files, the training reconciler writes no row, and the reconciliation
  as a whole leaves the tables as they were.
\<close>

lemma reconciler_writes_no_row:
  "fst (reconcile_trained_models_on_startup ok d files) = d
   \<and> fst (reconcile_on_startup ok d files) = d"
proof -
  obtain files1 where 1:
    "fold (\<lambda>(i, path) (d', files'). finish_publish_or_fail ok True d' files' i (Some path))
          (select_id_path applied d) (d, files) = (d, files1)"
    using fold_finish_db [of ok "select_id_path applied d" d files]
    by (metis prod.collapse)
  have "fst (reconcile_trained_models_on_startup ok d files) = d"
    by (simp add: reconcile_trained_models_on_startup_def 1 fold_fail_pending_db)
  then show ?thesis
    by (simp add: reconcile_on_startup_def split: prod.splits)
qed

lemmas reconcile_eval = reconcile_on_startup_def reconcile_trained_models_on_startup_def
  reconcile_predictions_on_startup_def select_id_path_def finish_publish_or_fail_def
  fail_pending_and_clean_tmp_def inspect_paths_def mark_failed_safely_def tm_mark_failed_def
  move_temp_to_final_def safe_unlink_def example_crashed_db_def example_crashed_files_def
  example_replace_ok_def crashed_row_def example_model_def example_db_def
  example_prediction_def

text \<open>
  C5. The reconciler after a crash. The training table holds an applied row with its
  final artifact, an applied row with only its temp file, an applied row with neither
  file, a pending row with a leftover temp file and an applied row whose rename fails;
  the prediction table holds a pending row. The files are repaired (the second row's
  artifact is published, the leftover temp files are deleted), but \<open>mark_failed\<close> never
  runs, because \<open>db.begin()\<close> is refused on a session whose transaction is begun, and
  the session is closed without a commit. Afterwards the third and the fifth row are
  still applied with no artifact, and the pending rows of both tables are still
  pending.
\<close>

theorem reconciler_marks_no_row_failed:
  "map tm_status
      (trained_models (fst (reconcile_trained_models_on_startup example_replace_ok
                              example_crashed_db example_crashed_files)))
     = [applied, applied, applied, pending, applied]
   \<and> fst (reconcile_on_startup example_replace_ok example_crashed_db example_crashed_files)
     = example_crashed_db
   \<and> map p_status (predictions example_crashed_db) = [pending]
   \<and> snd (reconcile_on_startup example_replace_ok example_crashed_db example_crashed_files)
     = {''m/1.pkl'', ''m/2.pkl''}"
  by (auto simp add: reconcile_eval)

section \<open>Fingerprint generator: properties\<close>

text \<open>Two dicts with the same keys list their items in the same key order.\<close>

lemma distinct_map_sort_key:
  "distinct (map f (sort_key f xs)) = distinct (map f xs)"
  by (induction xs) (simp_all add: distinct_insort_key)

lemma sorted_keys_eq:
  assumes "distinct (map fst kvs)" and "distinct (map fst kvs')"
      and "fst ` set kvs = fst ` set kvs'"
  shows "map fst (sort_key fst kvs) = map fst (sort_key fst kvs')"
proof (rule sorted_distinct_set_unique)
  show "set (map fst (sort_key fst kvs)) = set (map fst (sort_key fst kvs'))"
    using assms(3) by simp
qed (use assms in \<open>simp_all add: distinct_map_sort_key\<close>)

lemma sorted_items_render:
  assumes d: "distinct (map fst kvs)" and d': "distinct (map fst kvs')"
      and s: "fst ` set kvs = fst ` set kvs'"
      and g: "\<And>k v v'. (k, v) \<in> set kvs \<Longrightarrow> (k, v') \<in> set kvs' \<Longrightarrow> g k v = g k v'"
  shows "map (\<lambda>(k, v). g k v) (sort_key fst kvs) = map (\<lambda>(k, v). g k v) (sort_key fst kvs')"
proof (rule nth_equalityI)
  have keys: "map fst (sort_key fst kvs) = map fst (sort_key fst kvs')"
    by (rule sorted_keys_eq [OF d d' s])
  then have len: "length (sort_key fst kvs) = length (sort_key fst kvs')"
    by (metis length_map)
  show "length (map (\<lambda>(k, v). g k v) (sort_key fst kvs))
          = length (map (\<lambda>(k, v). g k v) (sort_key fst kvs'))"
    using len by simp
  fix i assume "i < length (map (\<lambda>(k, v). g k v) (sort_key fst kvs))"
  then have i: "i < length (sort_key fst kvs)" and i': "i < length (sort_key fst kvs')"
    using len by simp_all
  obtain k v where a: "sort_key fst kvs ! i = (k, v)" by (cases "sort_key fst kvs ! i")
  obtain k' v' where b: "sort_key fst kvs' ! i = (k', v')" by (cases "sort_key fst kvs' ! i")
  have "fst (sort_key fst kvs ! i) = fst (sort_key fst kvs' ! i)"
    using keys i i' by (metis nth_map)
  then have kk: "k' = k" using a b by simp
  have "(k, v) \<in> set (sort_key fst kvs)" using a i by (metis nth_mem)
  then have m: "(k, v) \<in> set kvs" by simp
  have "(k, v') \<in> set (sort_key fst kvs')" using b i' kk by (metis nth_mem)
  then have m': "(k, v') \<in> set kvs'" by simp
  show "map (\<lambda>(k, v). g k v) (sort_key fst kvs) ! i = map (\<lambda>(k, v). g k v) (sort_key fst kvs') ! i"
    using i i' a b kk g [OF m m'] by simp
qed

lemma same_json_stable_json:
  "same_json a b \<Longrightarrow> stable_json P a = stable_json P b"
proof (induction rule: same_json.induct)
  case (same_scalar a)
  then show ?case by simp
next
  case (same_list xs ys)
  then have "map (stable_json P) xs = map (stable_json P) ys"
    by (induction xs ys rule: list_all2_induct) simp_all
  then show ?case by simp
next
  case (same_dict kvs kvs')
  have "map (\<lambda>(k, v). encode_basestring_ascii P k @ '':'' @ stable_json P v) (sort_key fst kvs)
      = map (\<lambda>(k, v). encode_basestring_ascii P k @ '':'' @ stable_json P v) (sort_key fst kvs')"
    by (rule sorted_items_render [OF same_dict(1,2,3)]) (simp add: same_dict.IH)
  then show ?case by simp
qed

inductive_cases same_json_JDictE: "same_json (JDict kvs) (JDict kvs')"

lemma same_dict_items:
  assumes "same_json (JDict kvs) (JDict kvs')"
  shows "map (\<lambda>(k, v). stable_json P (JList [JStr k, v])) (sort_key fst kvs)
       = map (\<lambda>(k, v). stable_json P (JList [JStr k, v])) (sort_key fst kvs')"
proof (rule same_json_JDictE [OF assms])
  assume "distinct (map fst kvs)" and "distinct (map fst kvs')"
     and "fst ` set kvs = fst ` set kvs'"
     and v: "\<And>k v v'. (k, v) \<in> set kvs \<Longrightarrow> (k, v') \<in> set kvs' \<Longrightarrow> same_json v v'"
  then show ?thesis
    by (intro sorted_items_render) (simp_all add: same_json_stable_json [OF v])
qed (simp_all)

lemma example_same_params:
  "same_json (JDict [(''b'', JInt 1), (''a'', JStr ''x'')]) (JDict [(''a'', JStr ''x''), (''b'', JInt 1)])"
  by (rule same_json.same_dict) (auto intro: same_json.same_scalar)

text \<open>
  C9. The fingerprints are functions of the logical input alone. Two training calls with
  the same dataset bytes, features, label, model type and pipeline version, and with
  parameter dicts that are the same JSON value up to the order of their keys, return the
  same digest; so do two prediction calls with the same model id and feature values that
  are the same up to key order. Each fingerprint is a value of the SHA-256 hex digest,
  hence of its fixed length.
\<close>

theorem fingerprints_deterministic:
  "(same_json (JDict params) (JDict params') \<longrightarrow>
      compute_training_fingerprint P ch lh csv feats label mt params
        = compute_training_fingerprint P ch lh csv feats label mt params')
   \<and> (same_json (JDict fv) (JDict fv') \<longrightarrow>
      compute_prediction_fingerprint P model_id fv = compute_prediction_fingerprint P model_id fv')
   \<and> compute_training_fingerprint P ch lh csv feats label mt params \<in> range (sha256_hexdigest P)
   \<and> compute_prediction_fingerprint P model_id fv \<in> range (sha256_hexdigest P)
   \<and> ((\<forall>x. length (sha256_hexdigest P x) = 64) \<longrightarrow>
        length (compute_training_fingerprint P ch lh csv feats label mt params) = 64
        \<and> length (compute_prediction_fingerprint P model_id fv) = 64)"
proof (intro conjI impI)
  assume a: "same_json (JDict params) (JDict params')"
  show "compute_training_fingerprint P ch lh csv feats label mt params
        = compute_training_fingerprint P ch lh csv feats label mt params'"
    using same_json_stable_json [OF a, of P]
    by (simp add: compute_training_fingerprint_def Let_def)
next
  assume a: "same_json (JDict fv) (JDict fv')"
  have "map (stable_json P) (map (\<lambda>(k, v). JList [JStr k, v]) (sort_key fst fv))
      = map (stable_json P) (map (\<lambda>(k, v). JList [JStr k, v]) (sort_key fst fv'))"
    using same_dict_items [OF a, of P] by (simp add: comp_def case_prod_unfold)
  then show "compute_prediction_fingerprint P model_id fv = compute_prediction_fingerprint P model_id fv'"
    by (simp add: compute_prediction_fingerprint_def Let_def)
qed (simp_all add: compute_training_fingerprint_def compute_prediction_fingerprint_def Let_def)

theorem fingerprints_deterministic_witness:
  "compute_training_fingerprint example_stdlib ''c0'' ''l0'' ''x,y'' [''x''] ''y'' ''linear''
       [(''b'', JInt 1), (''a'', JStr ''x'')]
     = compute_training_fingerprint example_stdlib ''c0'' ''l0'' ''x,y'' [''x''] ''y'' ''linear''
       [(''a'', JStr ''x''), (''b'', JInt 1)]
   \<and> compute_prediction_fingerprint example_stdlib 7 [(''b'', JInt 1), (''a'', JStr ''x'')]
     = compute_prediction_fingerprint example_stdlib 7 [(''a'', JStr ''x''), (''b'', JInt 1)]"
  using fingerprints_deterministic
          [where params = "[(''b'', JInt 1), (''a'', JStr ''x'')]"
             and params' = "[(''a'', JStr ''x''), (''b'', JInt 1)]"
             and fv = "[(''b'', JInt 1), (''a'', JStr ''x'')]"
             and fv' = "[(''a'', JStr ''x''), (''b'', JInt 1)]"
             and P = example_stdlib and model_id = 7 and ch = "''c0''" and lh = "''l0''"
             and csv = "''x,y''" and feats = "[''x'']" and label = "''y''" and mt = "''linear''"]
        example_same_params
  by simp

end
